theory Spec2Isabelle
  imports Complex_Main "HOL-Library.AList"
begin

section \<open>Bulldog Behavior Interpreter: the App component of index.tsx\<close>

text \<open>
  The development follows the current revision of \<^verbatim>\<open>src/index.tsx\<close> (the component with
  live capture, lines 226 to 553).  React state is one record that every handler takes and
  returns; what a handler does to the world outside the component (local storage, the
  requests sent to the inference endpoint, the console, the camera tracks) is part of the
  same record.  What the platform answers during one run of a handler (the outcome of a
  file read, of the inference call, the clock) is the handler's environment argument.
\<close>

subsection \<open>Runtime values\<close>

text \<open>
  A value that \<^verbatim>\<open>JSON.parse\<close> can return.  An object is the list of its own properties in
  insertion order, with distinct keys (JavaScript lists the keys that are array indices
  first; no object below has such a key next to other keys).  \<^verbatim>\<open>null\<close> is \<open>JNull\<close>.  A number is an IEEE double:
  \<open>JNum q\<close> is the finite double whose value is the rational \<open>q\<close>, with \<open>JNum 0\<close> for
  \<^verbatim>\<open>+0\<close>; \<open>JNegZero\<close> is \<^verbatim>\<open>-0\<close>; \<open>JInfinity\<close> and \<open>JNegInfinity\<close> are the two infinite
  ones (\<^verbatim>\<open>JSON.parse\<close> returns them for literals such as \<^verbatim>\<open>1e999\<close>; it never returns
  \<^verbatim>\<open>NaN\<close>).  Strings are lists of 8-bit characters, that is JavaScript strings whose code
  units are below 256.
\<close>

datatype json =
    JNull
  | JBool bool
  | JNum rat
  | JNegZero
  | JInfinity
  | JNegInfinity
  | JStr string
  | JArr "json list"
  | JObj "(string \<times> json) list"

datatype exn =
    ApiKeyError
  | ReadError
  | RequestError
  | SyntaxError
  | TypeError
  | StorageError

datatype ui_mode = Upload | Live

text \<open>A \<^verbatim>\<open>File\<close>: its name, its MIME type and its bytes.\<close>

record media_file =
  fname :: string
  ftype :: string
  fbits :: string

text \<open>One call of \<^verbatim>\<open>ai.models.generateContent\<close>, as sent.\<close>

record request =
  req_model :: string
  req_mimeType :: string
  req_data :: "string option"
  req_text :: string
  req_systemInstruction :: string
  req_responseMimeType :: string
  req_required :: "string list"

text \<open>
  The platform's JSON functions are a parameter of the handlers: every property of a
  handler that does not look inside them holds for any JSON implementation.
\<close>

record platform =
  JSON_parse :: "string \<Rightarrow> json option"
  JSON_stringify :: "json \<Rightarrow> string"

record app =
  "file" :: "media_file option"
  previewUrl :: "string option"
  promptText :: string
  loading :: bool
  error :: "string option"
  result :: json
  history :: json
  mode :: ui_mode
  isCameraOn :: bool
  stream :: "nat list option"
  localStorage :: "string \<rightharpoonup> string"
  requests :: "request list"
  console :: "(string \<times> exn) list"
  liveTracks :: "nat set"

text \<open>The state of the first render: the \<^verbatim>\<open>useState\<close> defaults, over a given world.\<close>

definition initial_app :: "(string \<rightharpoonup> string) \<Rightarrow> nat set \<Rightarrow> app" where
  "initial_app storage tracks =
     \<lparr> file = None, previewUrl = None, promptText = [], loading = False, error = None,
       result = JNull, history = JArr [], mode = Upload, isCameraOn = False, stream = None,
       localStorage = storage, requests = [], console = [], liveTracks = tracks \<rparr>"

subsection \<open>JavaScript operations on values\<close>

definition digit_char :: "nat \<Rightarrow> char" where
  "digit_char d = char_of (48 + d)"

function show_nat :: "nat \<Rightarrow> string" where
  "show_nat n = (if n < 10 then [digit_char n] else show_nat (n div 10) @ [digit_char (n mod 10)])"
  by pat_completeness auto
termination
  by (relation "measure id") auto

declare show_nat.simps [simp del]

definition show_int :: "int \<Rightarrow> string" where
  "show_int i = (if i < 0 then CHR ''-'' # show_nat (nat (- i)) else show_nat (nat i))"

text \<open>
  The own enumerable properties that an object spread \<^verbatim>\<open>{...v}\<close> copies: those of an
  object, the indices of an array or of a string, nothing for the other values.
\<close>

fun own_props :: "json \<Rightarrow> (string \<times> json) list" where
  "own_props (JObj kvs) = kvs"
| "own_props (JArr xs) = zip (map show_nat [0..<length xs]) xs"
| "own_props (JStr s) = zip (map show_nat [0..<length s]) (map (\<lambda>c. JStr [c]) s)"
| "own_props v = []"

text \<open>
  An object literal defines its properties from left to right: a key that is already there
  keeps its place and takes the new value, a new key goes to the end.
\<close>

definition object_literal :: "(string \<times> json) list \<Rightarrow> json" where
  "object_literal props = JObj (fold (\<lambda>(k, v). AList.update k v) props [])"

text \<open>
  The array spread \<^verbatim>\<open>[...v]\<close> iterates its operand: an array gives its elements, a string
  its characters, and any other JSON value is not iterable.
\<close>

fun iterate :: "json \<Rightarrow> exn + json list" where
  "iterate (JArr xs) = Inr xs"
| "iterate (JStr s) = Inr (map (\<lambda>c. JStr [c]) s)"
| "iterate v = Inl TypeError"

text \<open>\<^verbatim>\<open>s.split(',')\<close>: the pieces of \<open>s\<close> between the separators, never an empty list.\<close>

fun split_on :: "char \<Rightarrow> string \<Rightarrow> string list" where
  "split_on c [] = [[]]"
| "split_on c (x # xs) =
     (if x = c then [] # split_on c xs
      else (case split_on c xs of
              [] \<Rightarrow> [[x]]
            | piece # pieces \<Rightarrow> (x # piece) # pieces))"

text \<open>\<^verbatim>\<open>xs[i]\<close> on an array: \<^verbatim>\<open>undefined\<close> out of range.\<close>

definition index_opt :: "'a list \<Rightarrow> nat \<Rightarrow> 'a option" where
  "index_opt xs i = (if i < length xs then Some (xs ! i) else None)"

text \<open>
  \<^verbatim>\<open>URL.createObjectURL\<close> (File API, blob URLs): a fresh URL of scheme \<^verbatim>\<open>blob\<close>, made of
  the page's origin and a UUID.  It names the bytes inside the running page and does not
  hold them.
\<close>

definition createObjectURL :: "string \<Rightarrow> string \<Rightarrow> string" where
  "createObjectURL origin uuid = ''blob:'' @ origin @ ''/'' @ uuid"

text \<open>A data URL starts with the scheme \<^verbatim>\<open>data:\<close> (RFC 2397).\<close>

definition is_data_url :: "string \<Rightarrow> bool" where
  "is_data_url u = (take 5 u = ''data:'')"

subsection \<open>A JSON implementation\<close>

text \<open>
  \<^verbatim>\<open>JSON.stringify\<close> and \<^verbatim>\<open>JSON.parse\<close> belong to the platform, not to the repository.
  The instance below follows ECMA-404 and the serialisation of ECMA-262 (no indentation)
  on the values of type \<open>json\<close>: it is the platform used wherever a property needs a JSON
  implementation to run.  Texts and strings being 8-bit, an escape \<^verbatim>\<open>\uXXXX\<close> above
  \<^verbatim>\<open>\u00ff\<close> denotes a string that the type does not have, and \<open>json_parse\<close> gives \<open>None\<close>
  on it.
\<close>

text \<open>
  The Number value of a real (ECMA-262, 6.1.6.1), from its sign and its magnitude: the
  nearest double, ties to the even significand; a magnitude that rounds to \<open>2 ^ 1024\<close> is
  an infinity, and one that rounds to zero keeps its sign.  A double has 53 significant
  bits, with the binary exponent of its leading bit between -1022 and 1023; below that
  the spacing stays \<open>2 ^ -1074\<close>.
\<close>

definition pow2 :: "int \<Rightarrow> rat" where
  "pow2 k = (if 0 \<le> k then 2 ^ nat k else 1 / 2 ^ nat (- k))"

definition pow10 :: "int \<Rightarrow> rat" where
  "pow10 k = (if 0 \<le> k then 10 ^ nat k else 1 / 10 ^ nat (- k))"

definition binary_exponent :: "rat \<Rightarrow> int" where
  "binary_exponent a =
     fold (\<lambda>step e. if pow2 (e + step) \<le> a then e + step else e)
       [1024, 512, 256, 128, 64, 32, 16, 8, 4, 2, 1] (- 1022)"

definition round_half_even :: "rat \<Rightarrow> int" where
  "round_half_even t =
     (let m = \<lfloor>t\<rfloor>; r = t - of_int m
      in if 1 / 2 < r \<or> (r = 1 / 2 \<and> odd m) then m + 1 else m)"

definition to_number :: "bool \<Rightarrow> rat \<Rightarrow> json" where
  "to_number negative a =
     (if pow2 1024 \<le> a then (if negative then JNegInfinity else JInfinity)
      else
        (let ulp = pow2 (binary_exponent a - 52);
             d = of_int (round_half_even (a / ulp)) * ulp
         in if pow2 1024 \<le> d then (if negative then JNegInfinity else JInfinity)
            else if d = 0 then (if negative then JNegZero else JNum 0)
            else JNum (if negative then - d else d)))"

text \<open>
  \<^verbatim>\<open>Number::toString\<close> (ECMA-262, 6.1.6.1.20) of a positive finite double \<open>q\<close>: the least
  number \<open>k\<close> of digits, with digits \<open>s\<close> and decimal exponent \<open>n\<close>, such that
  \<open>s * 10 ^ (n - k)\<close> has the Number value \<open>q\<close>; among several \<open>s\<close> the one nearest to \<open>q\<close>.
  Seventeen digits always suffice.  The digits are then laid out plainly when
  \<open>-6 < n \<le> 21\<close>, and with an exponent otherwise.
\<close>

definition decimal_exponent :: "rat \<Rightarrow> int" where
  "decimal_exponent q =
     fold (\<lambda>step j. if pow10 (j + step) \<le> q then j + step else j)
       [512, 256, 128, 64, 32, 16, 8, 4, 2, 1] (- 324) + 1"

definition digit_candidates :: "rat \<Rightarrow> nat \<Rightarrow> (int \<times> int) list" where
  "digit_candidates q k =
     (let n = decimal_exponent q;
          lo = \<lfloor>q / pow10 (n - int k)\<rfloor>;
          hi = lo + 1;
          both = [(lo, n), (if hi = 10 ^ k then (10 ^ (k - 1), n + 1) else (hi, n))];
          good = filter (\<lambda>(s, m). 10 ^ (k - 1) \<le> s \<and> s < 10 ^ k
                          \<and> to_number False (of_int s * pow10 (m - int k)) = JNum q) both
      in (case good of
            [c, d] \<Rightarrow>
              if \<bar>of_int (fst d) * pow10 (snd d - int k) - q\<bar>
                   < \<bar>of_int (fst c) * pow10 (snd c - int k) - q\<bar>
                 \<or> (\<bar>of_int (fst d) * pow10 (snd d - int k) - q\<bar>
                      = \<bar>of_int (fst c) * pow10 (snd c - int k) - q\<bar> \<and> odd (fst c))
              then [d] else [c]
          | _ \<Rightarrow> good))"

definition shortest_digits :: "rat \<Rightarrow> nat \<times> int \<times> int" where
  "shortest_digits q =
     (case List.find (\<lambda>k. digit_candidates q k \<noteq> [])
             [1, 2, 3, 4, 5, 6, 7, 8, 9, 10, 11, 12, 13, 14, 15, 16, 17] of
        Some k \<Rightarrow> (k, hd (digit_candidates q k))
      | None \<Rightarrow> (17, \<lfloor>q / pow10 (decimal_exponent q - 17)\<rfloor>, decimal_exponent q))"

definition number_text :: "rat \<Rightarrow> string" where
  "number_text q =
     (let (k, s, n) = shortest_digits q;
          ds = show_nat (nat s);
          e = n - 1;
          exponent = CHR ''e'' # (if e < 0 then CHR ''-'' else CHR ''+'') # show_nat (nat \<bar>e\<bar>)
      in if int k \<le> n \<and> n \<le> 21 then ds @ replicate (nat (n - int k)) CHR ''0''
         else if 0 < n \<and> n \<le> 21 then take (nat n) ds @ CHR ''.'' # drop (nat n) ds
         else if - 6 < n \<and> n \<le> 0 then ''0.'' @ replicate (nat (- n)) CHR ''0'' @ ds
         else if k = 1 then ds @ exponent
         else hd ds # CHR ''.'' # tl ds @ exponent)"

definition show_number :: "rat \<Rightarrow> string" where
  "show_number q =
     (if q = 0 then ''0''
      else if q < 0 then CHR ''-'' # number_text (- q)
      else number_text q)"

definition hex_char :: "nat \<Rightarrow> char" where
  "hex_char d = (if d < 10 then char_of (48 + d) else char_of (87 + d))"

definition escape_char :: "char \<Rightarrow> string" where
  "escape_char c =
     (if c = CHR 0x22 then [CHR 0x5C, CHR 0x22]
      else if c = CHR 0x5C then [CHR 0x5C, CHR 0x5C]
      else if c = CHR 0x08 then [CHR 0x5C, CHR ''b'']
      else if c = CHR 0x09 then [CHR 0x5C, CHR ''t'']
      else if c = CHR 0x0A then [CHR 0x5C, CHR ''n'']
      else if c = CHR 0x0C then [CHR 0x5C, CHR ''f'']
      else if c = CHR 0x0D then [CHR 0x5C, CHR ''r'']
      else if (of_char c :: nat) < 32 then
        [CHR 0x5C, CHR ''u'', CHR ''0'', CHR ''0'', hex_char (of_char c div 16), hex_char (of_char c mod 16)]
      else [c])"

definition quote :: "string \<Rightarrow> string" where
  "quote s = CHR 0x22 # concat (map escape_char s) @ [CHR 0x22]"

fun join :: "string \<Rightarrow> string list \<Rightarrow> string" where
  "join sep [] = []"
| "join sep [x] = x"
| "join sep (x # y # ys) = x @ sep @ join sep (y # ys)"

fun json_stringify :: "json \<Rightarrow> string" where
  "json_stringify JNull = ''null''"
| "json_stringify (JBool b) = (if b then ''true'' else ''false'')"
| "json_stringify (JNum q) = show_number q"
| "json_stringify JNegZero = ''0''"
| "json_stringify JInfinity = ''null''"
| "json_stringify JNegInfinity = ''null''"
| "json_stringify (JStr s) = quote s"
| "json_stringify (JArr xs) = ''['' @ join '','' (map json_stringify xs) @ '']''"
| "json_stringify (JObj kvs) = ''{'' @ join '','' (map (\<lambda>(k, v). quote k @ '':'' @ json_stringify v) kvs) @ ''}''"

definition is_ws :: "char \<Rightarrow> bool" where
  "is_ws c = (c = CHR 0x20 \<or> c = CHR 0x09 \<or> c = CHR 0x0A \<or> c = CHR 0x0D)"

definition skip_ws :: "string \<Rightarrow> string" where
  "skip_ws s = dropWhile is_ws s"

definition hex_val :: "char \<Rightarrow> nat option" where
  "hex_val c =
     (let n = (of_char c :: nat) in
      if 48 \<le> n \<and> n \<le> 57 then Some (n - 48)
      else if 97 \<le> n \<and> n \<le> 102 then Some (n - 87)
      else if 65 \<le> n \<and> n \<le> 70 then Some (n - 55)
      else None)"

fun hex4 :: "string \<Rightarrow> nat option" where
  "hex4 [a, b, c, d] =
     (case (hex_val a, hex_val b, hex_val c, hex_val d) of
        (Some w, Some x, Some y, Some z) \<Rightarrow> Some (((w * 16 + x) * 16 + y) * 16 + z)
      | _ \<Rightarrow> None)"
| "hex4 s = None"

definition unescape :: "char \<Rightarrow> char option" where
  "unescape e =
     (if e = CHR 0x22 then Some (CHR 0x22)
      else if e = CHR 0x5C then Some (CHR 0x5C)
      else if e = CHR ''/'' then Some (CHR ''/'')
      else if e = CHR ''b'' then Some (CHR 0x08)
      else if e = CHR ''f'' then Some (CHR 0x0C)
      else if e = CHR ''n'' then Some (CHR 0x0A)
      else if e = CHR ''r'' then Some (CHR 0x0D)
      else if e = CHR ''t'' then Some (CHR 0x09)
      else None)"

definition cons_result :: "char \<Rightarrow> (string \<times> string) option \<Rightarrow> (string \<times> string) option" where
  "cons_result c r = map_option (\<lambda>(str, rest). (c # str, rest)) r"

fun parse_chars :: "string \<Rightarrow> (string \<times> string) option" where
  "parse_chars [] = None"
| "parse_chars (c # r) =
     (if c = CHR 0x22 then Some ([], r)
      else if c = CHR 0x5C then
        (case r of
           [] \<Rightarrow> None
         | e # r' \<Rightarrow>
             if e = CHR ''u'' then
               (case hex4 (take 4 r') of
                  None \<Rightarrow> None
                | Some code \<Rightarrow>
                    if code < 256 then cons_result (char_of code) (parse_chars (drop 4 r'))
                    else None)
             else
               (case unescape e of
                  None \<Rightarrow> None
                | Some ch \<Rightarrow> cons_result ch (parse_chars r')))
      else if (of_char c :: nat) < 32 then None
      else cons_result c (parse_chars r))"

definition is_digit :: "char \<Rightarrow> bool" where
  "is_digit c = (48 \<le> (of_char c :: nat) \<and> (of_char c :: nat) \<le> 57)"

definition digits_val :: "string \<Rightarrow> nat" where
  "digits_val ds = foldl (\<lambda>acc c. acc * 10 + (of_char c - 48)) 0 ds"

text \<open>
  A number literal (ECMA-404): an optional minus sign, an integer part with no leading
  zero, an optional fraction and an optional exponent.  Its value is the Number value of
  the real that it denotes.
\<close>

definition parse_fraction :: "string \<Rightarrow> (string \<times> string) option" where
  "parse_fraction s =
     (case s of
        [] \<Rightarrow> Some ([], [])
      | c # r \<Rightarrow>
          if c = CHR ''.'' then
            (if takeWhile is_digit r = [] then None
             else Some (takeWhile is_digit r, dropWhile is_digit r))
          else Some ([], s))"

definition parse_exponent :: "string \<Rightarrow> (int \<times> string) option" where
  "parse_exponent s =
     (case s of
        [] \<Rightarrow> Some (0, [])
      | c # r \<Rightarrow>
          if c = CHR ''e'' \<or> c = CHR ''E'' then
            (let (sign, r1) =
                   (case r of
                      [] \<Rightarrow> (1, r)
                    | d # r' \<Rightarrow>
                        if d = CHR ''-'' then (- 1, r')
                        else if d = CHR ''+'' then (1, r')
                        else (1, r))
             in if takeWhile is_digit r1 = [] then None
                else Some (sign * int (digits_val (takeWhile is_digit r1)), dropWhile is_digit r1))
          else Some (0, s))"

definition parse_number :: "string \<Rightarrow> (json \<times> string) option" where
  "parse_number s =
     (let (negative, s1) =
            (case s of
               [] \<Rightarrow> (False, s)
             | c # r \<Rightarrow> if c = CHR ''-'' then (True, r) else (False, s));
          ip = takeWhile is_digit s1
      in if ip = [] \<or> (hd ip = CHR ''0'' \<and> 1 < length ip) then None
         else
           (case parse_fraction (dropWhile is_digit s1) of
              None \<Rightarrow> None
            | Some (fp, s2) \<Rightarrow>
                (case parse_exponent s2 of
                   None \<Rightarrow> None
                 | Some (ex, s3) \<Rightarrow>
                     (let magnitude = of_nat (digits_val (ip @ fp)) * pow10 (ex - int (length fp))
                      in Some (to_number negative magnitude, s3)))))"

fun parse_value :: "nat \<Rightarrow> string \<Rightarrow> (json \<times> string) option"
and parse_elements :: "nat \<Rightarrow> string \<Rightarrow> (json list \<times> string) option"
and parse_members :: "nat \<Rightarrow> string \<Rightarrow> ((string \<times> json) list \<times> string) option"
where
  "parse_value 0 s = None"
| "parse_value (Suc n) s =
     (case skip_ws s of
        [] \<Rightarrow> None
      | c # r \<Rightarrow>
          if c = CHR ''{'' then
            (case skip_ws r of
               [] \<Rightarrow> None
             | d # r' \<Rightarrow>
                 if d = CHR ''}'' then Some (JObj [], r')
                 else map_option (\<lambda>(kvs, t). (JObj kvs, t)) (parse_members n (d # r')))
          else if c = CHR ''['' then
            (case skip_ws r of
               [] \<Rightarrow> None
             | d # r' \<Rightarrow>
                 if d = CHR '']'' then Some (JArr [], r')
                 else map_option (\<lambda>(vs, t). (JArr vs, t)) (parse_elements n (d # r')))
          else if c = CHR 0x22 then map_option (\<lambda>(str, t). (JStr str, t)) (parse_chars r)
          else if take 4 (c # r) = ''null'' then Some (JNull, drop 3 r)
          else if take 4 (c # r) = ''true'' then Some (JBool True, drop 3 r)
          else if take 5 (c # r) = ''false'' then Some (JBool False, drop 4 r)
          else parse_number (c # r))"
| "parse_elements 0 s = None"
| "parse_elements (Suc n) s =
     (case parse_value n s of
        None \<Rightarrow> None
      | Some (v, r) \<Rightarrow>
          (case skip_ws r of
             [] \<Rightarrow> None
           | c # r' \<Rightarrow>
               if c = CHR '']'' then Some ([v], r')
               else if c = CHR '','' then
                 map_option (\<lambda>(vs, t). (v # vs, t)) (parse_elements n r')
               else None))"
| "parse_members 0 s = None"
| "parse_members (Suc n) s =
     (case skip_ws s of
        [] \<Rightarrow> None
      | q # r \<Rightarrow>
          if q \<noteq> CHR 0x22 then None
          else
            (case parse_chars r of
               None \<Rightarrow> None
             | Some (k, r1) \<Rightarrow>
                 (case skip_ws r1 of
                    [] \<Rightarrow> None
                  | c # r2 \<Rightarrow>
                      if c \<noteq> CHR '':'' then None
                      else
                        (case parse_value n r2 of
                           None \<Rightarrow> None
                         | Some (v, r3) \<Rightarrow>
                             (case skip_ws r3 of
                                [] \<Rightarrow> None
                              | d # r4 \<Rightarrow>
                                  if d = CHR ''}'' then Some ([(k, v)], r4)
                                  else if d = CHR '','' then
                                    map_option (\<lambda>(kvs, t). ((k, v) # kvs, t)) (parse_members n r4)
                                  else None)))))"

fun json_normalize :: "json \<Rightarrow> json" where
  "json_normalize (JArr xs) = JArr (map json_normalize xs)"
| "json_normalize (JObj kvs) =
     JObj (fold (\<lambda>(k, v). AList.update k v) (map (\<lambda>(k, v). (k, json_normalize v)) kvs) [])"
| "json_normalize v = v"

definition json_parse :: "string \<Rightarrow> json option" where
  "json_parse s =
     (case parse_value (Suc (length s)) s of
        None \<Rightarrow> None
      | Some (v, r) \<Rightarrow> if skip_ws r = [] then Some (json_normalize v) else None)"

definition ecma_json :: platform where
  "ecma_json = \<lparr> JSON_parse = json_parse, JSON_stringify = json_stringify \<rparr>"

text \<open>Property access \<^verbatim>\<open>v[k]\<close> on a parsed value, for the keys of an object.\<close>

definition get_prop :: "string \<Rightarrow> json \<Rightarrow> json option" where
  "get_prop k v = (case v of JObj kvs \<Rightarrow> map_of kvs k | _ \<Rightarrow> None)"

definition array_length :: "json \<Rightarrow> nat option" where
  "array_length v = (case v of JArr xs \<Rightarrow> Some (length xs) | _ \<Rightarrow> None)"

subsection \<open>The startup effect\<close>

text \<open>
  \<^verbatim>\<open>useEffect(() => { try { ... } catch (e) { console.error(...) } }, [])\<close>, lines 290 to 299.
  \<open>getItem_throws\<close>: the browser refuses access to local storage.
\<close>

record load_env =
  getItem_throws :: bool

definition load_failed :: string where
  "load_failed = ''Failed to load history from localStorage''"

definition loadHistory :: "platform \<Rightarrow> load_env \<Rightarrow> app \<Rightarrow> app" where
  "loadHistory P env s =
     (if getItem_throws env then s\<lparr>console := console s @ [(load_failed, StorageError)]\<rparr>
      else
        (case localStorage s ''bulldogHistory'' of
           None \<Rightarrow> s
         | Some storedHistory \<Rightarrow>
             if storedHistory = [] then s
             else
               (case JSON_parse P storedHistory of
                  None \<Rightarrow> s\<lparr>console := console s @ [(load_failed, SyntaxError)]\<rparr>
                | Some v \<Rightarrow> s\<lparr>history := v\<rparr>)))"

definition startup :: "platform \<Rightarrow> load_env \<Rightarrow> (string \<rightharpoonup> string) \<Rightarrow> nat set \<Rightarrow> app" where
  "startup P env storage tracks = loadHistory P env (initial_app storage tracks)"

subsection \<open>Camera and file handlers\<close>

definition stop_track :: "nat \<Rightarrow> nat set \<Rightarrow> nat set" where
  "stop_track t live = live - {t}"

definition handleStopCamera :: "app \<Rightarrow> app" where
  "handleStopCamera s =
     (let s1 = (case stream s of
                  None \<Rightarrow> s
                | Some tracks \<Rightarrow> s\<lparr>liveTracks := fold stop_track tracks (liveTracks s)\<rparr>)
      in s1\<lparr>isCameraOn := False, stream := None\<rparr>)"

text \<open>
  \<open>handleCapturePhoto\<close>, lines 335 to 357.  The environment says whether the two refs are
  attached and whether the canvas gives a 2d context, what \<^verbatim>\<open>canvas.toBlob\<close> hands to its
  callback (\<open>None\<close> is \<^verbatim>\<open>null\<close>), the clock and the parts of the fresh object URL.  The
  callback of \<^verbatim>\<open>toBlob\<close> runs after the handler has returned, so after \<open>handleStopCamera\<close>.
\<close>

record capture_env =
  videoRef :: bool
  canvasRef :: bool
  context2d :: bool
  toBlob :: "string option"
  date_now :: int
  capture_origin :: string
  capture_uuid :: string

definition capture_callback :: "capture_env \<Rightarrow> string option \<Rightarrow> app \<Rightarrow> app" where
  "capture_callback env blob s =
     (case blob of
        None \<Rightarrow> s
      | Some b \<Rightarrow>
          (let capturedFile =
                 \<lparr> fname = ''capture-'' @ show_int (date_now env) @ ''.jpg'',
                   ftype = ''image/jpeg'', fbits = b \<rparr>
           in s\<lparr> file := Some capturedFile,
                 previewUrl := Some (createObjectURL (capture_origin env) (capture_uuid env)),
                 result := JNull,
                 error := None,
                 mode := Upload \<rparr>))"

definition handleCapturePhoto :: "capture_env \<Rightarrow> app \<Rightarrow> app" where
  "handleCapturePhoto env s =
     (let pending =
            (if videoRef env \<and> canvasRef env then
               (if context2d env then Some (toBlob env) else None)
             else None);
          s1 = handleStopCamera s
      in (case pending of
            None \<Rightarrow> s1
          | Some blob \<Rightarrow> capture_callback env blob s1))"

text \<open>\<open>handleFileChange\<close>, lines 359 to 368; \<open>selectedFile\<close> is \<^verbatim>\<open>event.target.files?.[0]\<close>.\<close>

record select_env =
  selectedFile :: "media_file option"
  select_origin :: string
  select_uuid :: string

definition handleFileChange :: "select_env \<Rightarrow> app \<Rightarrow> app" where
  "handleFileChange env s =
     (let s1 = handleStopCamera s
      in (case selectedFile env of
            None \<Rightarrow> s1
          | Some f \<Rightarrow>
              s1\<lparr> file := Some f,
                  previewUrl := Some (createObjectURL (select_origin env) (select_uuid env)),
                  result := JNull,
                  error := None \<rparr>))"

subsection \<open>The analysis handler\<close>

text \<open>
  \<open>fileToBase64\<close>, lines 252 to 258: \<open>r\<close> is what \<^verbatim>\<open>readAsDataURL\<close> ends with, the data URL
  on \<^verbatim>\<open>onload\<close> or \<open>None\<close> on \<^verbatim>\<open>onerror\<close>.  The promise resolves to the second piece
  of the URL split at commas, which is \<^verbatim>\<open>undefined\<close> (\<open>None\<close>) when there is no comma.
\<close>

definition fileToBase64 :: "string option \<Rightarrow> exn + string option" where
  "fileToBase64 r =
     (case r of
        None \<Rightarrow> Inl ReadError
      | Some url \<Rightarrow> Inr (index_opt (split_on CHR '','' url) 1))"

definition systemInstruction :: string where
  "systemInstruction = ''You are a specialized bulldog behavior expert. Analyze the provided image, video, or audio and text to identify bulldog behaviors. Provide a concise, plain-language explanation and a simple, actionable tip for the owner. Your response must be in JSON format.''"

text \<open>The template literal of line 390; \<^verbatim>\<open>promptText || 'None'\<close> takes the empty string to None.\<close>

definition contents :: "string \<Rightarrow> string" where
  "contents prompt =
     ''Analyze the bulldog's behavior in this media. Additional context from the owner: \"''
     @ (if prompt = [] then ''None'' else prompt) @ ''\".''"

text \<open>
  The environment of one run of \<open>handleAnalyze\<close>: whether the client constructor throws,
  the outcome of the file read, the outcome of the inference call (an exception, or a
  response whose \<^verbatim>\<open>text\<close> is a string or \<^verbatim>\<open>undefined\<close>), the two renderings of the clock,
  and whether \<^verbatim>\<open>localStorage.setItem\<close> throws.
\<close>

record analyze_env =
  newClient_throws :: bool
  readAsDataURL :: "string option"
  generateContent :: "exn + string option"
  toISOString :: string
  toLocaleString :: string
  setItem_throws :: bool

text \<open>\<^verbatim>\<open>JSON.parse\<close> converts its argument to a string first.\<close>

definition response_text :: "string option \<Rightarrow> string" where
  "response_text t = (case t of None \<Rightarrow> ''undefined'' | Some x \<Rightarrow> x)"

definition newHistoryItem :: "analyze_env \<Rightarrow> media_file \<Rightarrow> app \<Rightarrow> json \<Rightarrow> json" where
  "newHistoryItem env f s analysisResult =
     object_literal
       (own_props analysisResult @
        [ (''id'', JStr (toISOString env)),
          (''timestamp'', JStr (toLocaleString env)),
          (''file'', object_literal
             [ (''dataUrl'', (case previewUrl s of None \<Rightarrow> JNull | Some u \<Rightarrow> JStr u)),
               (''type'', JStr (ftype f)) ]),
          (''prompt'', JStr (promptText s)) ])"

text \<open>
  The body of the \<^verbatim>\<open>try\<close> block, lines 381 to 426: the state it leaves and the exception
  it throws, if any.
\<close>

definition analyze_body :: "platform \<Rightarrow> analyze_env \<Rightarrow> media_file \<Rightarrow> app \<Rightarrow> app \<times> exn option" where
  "analyze_body P env f s =
     (if newClient_throws env then (s, Some ApiKeyError)
      else
        (case fileToBase64 (readAsDataURL env) of
           Inl e \<Rightarrow> (s, Some e)
         | Inr base64Data \<Rightarrow>
             (let req = \<lparr> req_model = ''gemini-2.5-flash'',
                          req_mimeType = ftype f,
                          req_data = base64Data,
                          req_text = contents (promptText s),
                          req_systemInstruction = systemInstruction,
                          req_responseMimeType = ''application/json'',
                          req_required = [''behavior'', ''explanation'', ''tip''] \<rparr>;
                  s1 = s\<lparr>requests := requests s @ [req]\<rparr>
              in (case generateContent env of
                    Inl e \<Rightarrow> (s1, Some e)
                  | Inr text \<Rightarrow>
                      (case JSON_parse P (response_text text) of
                         None \<Rightarrow> (s1, Some SyntaxError)
                       | Some analysisResult \<Rightarrow>
                           (let s2 = s1\<lparr>result := analysisResult\<rparr>;
                                item = newHistoryItem env f s analysisResult
                            in (case iterate (history s) of
                                  Inl e \<Rightarrow> (s2, Some e)
                                | Inr older \<Rightarrow>
                                    (let updatedHistory = JArr (take 10 (item # older));
                                         s3 = s2\<lparr>history := updatedHistory\<rparr>
                                     in if setItem_throws env then (s3, Some StorageError)
                                        else
                                          (s3\<lparr>localStorage := (localStorage s3)
                                                (''bulldogHistory'' \<mapsto> JSON_stringify P updatedHistory)\<rparr>,
                                           None)))))))))"

definition no_file_message :: string where
  "no_file_message = ''Please upload or capture a media file first.''"

definition failure_message :: string where
  "failure_message = ''Failed to analyze the media. Please try again.''"

text \<open>\<open>handleAnalyze\<close>, lines 370 to 434.\<close>

definition handleAnalyze :: "platform \<Rightarrow> analyze_env \<Rightarrow> app \<Rightarrow> app" where
  "handleAnalyze P env s =
     (case file s of
        None \<Rightarrow> s\<lparr>error := Some no_file_message\<rparr>
      | Some f \<Rightarrow>
          (let s1 = s\<lparr>loading := True, error := None, result := JNull\<rparr>;
               (s2, thrown) = analyze_body P env f s1;
               s3 = (case thrown of
                       None \<Rightarrow> s2
                     | Some e \<Rightarrow> s2\<lparr>console := console s2 @ [([], e)],
                                     error := Some failure_message\<rparr>)
           in s3\<lparr>loading := False\<rparr>))"

text \<open>The analysis succeeded: the \<^verbatim>\<open>try\<close> block ran to its end.\<close>

definition analysis_succeeds :: "platform \<Rightarrow> analyze_env \<Rightarrow> app \<Rightarrow> bool" where
  "analysis_succeeds P env s =
     (case file s of
        None \<Rightarrow> False
      | Some f \<Rightarrow> snd (analyze_body P env f (s\<lparr>loading := True, error := None, result := JNull\<rparr>)) = None)"

text \<open>\<^verbatim>\<open>history[i]\<close> when the history is an array.\<close>

definition array_index :: "json \<Rightarrow> nat \<Rightarrow> json option" where
  "array_index v i = (case v of JArr xs \<Rightarrow> index_opt xs i | _ \<Rightarrow> None)"

subsection \<open>The prompt as the specification words it\<close>

definition spec_contents :: "string \<Rightarrow> string" where
  "spec_contents prompt =
     ''Analyze the bulldog's behavior in this image/video. Additional context from the owner: \"''
     @ (if prompt = [] then ''None'' else prompt) @ ''\".''"

subsection \<open>Well-formed values and printed text\<close>

text \<open>
  A JavaScript object has each key once.  \<open>wf_json\<close> says so of the lists that stand for
  objects, at every depth.
\<close>

fun wf_json :: "json \<Rightarrow> bool" where
  "wf_json (JArr xs) = list_all wf_json xs"
| "wf_json (JObj kvs) = (distinct (map fst kvs) \<and> list_all (\<lambda>(k, v). wf_json v) kvs)"
| "wf_json v = True"

text \<open>A value with no number in it, at any depth.\<close>

fun number_free :: "json \<Rightarrow> bool" where
  "number_free (JNum q) = False"
| "number_free JNegZero = False"
| "number_free JInfinity = False"
| "number_free JNegInfinity = False"
| "number_free (JArr xs) = list_all number_free xs"
| "number_free (JObj kvs) = list_all (\<lambda>(k, v). number_free v) kvs"
| "number_free v = True"

text \<open>A text that starts like a printed value: not with white space or a closing bracket.\<close>

definition value_start :: "string \<Rightarrow> bool" where
  "value_start s =
     (case s of [] \<Rightarrow> False
      | c # cs \<Rightarrow> \<not> is_ws c \<and> c \<noteq> CHR '']'' \<and> c \<noteq> CHR ''}'')"

text \<open>One member of a printed object.\<close>

definition member_text :: "string \<times> json \<Rightarrow> string" where
  "member_text = (\<lambda>(k, v). quote k @ '':'' @ json_stringify v)"

subsection \<open>Concrete files, environments and states\<close>

text \<open>
  A JPEG chosen in the file picker, an environment in which every step of the analysis
  succeeds, one whose response lacks two of the three fields, one whose response has a
  number too large for a double, one whose write to storage throws, one whose request is
  rejected, and the states they are run from: \<open>ready_app\<close> after the file was chosen on a
  fresh page, \<open>full_app\<close> with ten earlier items, \<open>live_app\<close> with the camera on.
\<close>

definition dog_jpg :: media_file where
  "dog_jpg = \<lparr> fname = ''dog.jpg'', ftype = ''image/jpeg'', fbits = ''JFIF'' \<rparr>"

definition select_dog :: select_env where
  "select_dog = \<lparr> selectedFile = Some dog_jpg,
                  select_origin = ''https://bulldog.example'',
                  select_uuid = ''0b5c2a9e-7a41-4c55-9d1e-2f6f0c1d8a33'' \<rparr>"

definition ready_app :: app where
  "ready_app = handleFileChange select_dog (initial_app Map.empty {})"

definition env_ok :: analyze_env where
  "env_ok = \<lparr> newClient_throws = False,
              readAsDataURL = Some ''data:image/jpeg;base64,/9j/4AAQ'',
              generateContent = Inr (Some ''{\"behavior\":\"Comfort Seeking\",\"explanation\":\"Leaning in\",\"tip\":\"Offer a bed\"}''),
              toISOString = ''2024-05-01T10:00:00.000Z'',
              toLocaleString = ''5/1/2024, 10:00:00 AM'',
              setItem_throws = False \<rparr>"

definition env_missing :: analyze_env where
  "env_missing = env_ok\<lparr>generateContent := Inr (Some ''{\"behavior\":\"Comfort Seeking\"}'')\<rparr>"

definition env_storage_full :: analyze_env where
  "env_storage_full = env_ok\<lparr>setItem_throws := True\<rparr>"


definition env_offline :: analyze_env where
  "env_offline = env_ok\<lparr>generateContent := Inl RequestError\<rparr>"

definition past_item :: "nat \<Rightarrow> json" where
  "past_item n = JObj [(''behavior'', JStr ''Napping''), (''id'', JStr (show_nat n))]"

definition past_items :: "json list" where
  "past_items = [past_item 0, past_item 1, past_item 2, past_item 3, past_item 4,
                 past_item 5, past_item 6, past_item 7, past_item 8, past_item 9]"

definition full_app :: app where
  "full_app = ready_app\<lparr>history := JArr past_items\<rparr>"

definition live_app :: app where
  "live_app = (initial_app Map.empty {7})\<lparr>mode := Live, isCameraOn := True, stream := Some [7]\<rparr>"

definition capture_ok :: capture_env where
  "capture_ok = \<lparr> videoRef = True, canvasRef = True, context2d = True, toBlob = Some ''JFIF'',
                  date_now = 1714557600000,
                  capture_origin = ''https://bulldog.example'',
                  capture_uuid = ''5d0f6c1e-93a7-4e0b-8a55-0a4c7e2b9f10'' \<rparr>"

definition stored_eleven :: string where
  "stored_eleven = ''[0,1,2,3,4,5,6,7,8,9,10]''"

section \<open>Properties\<close>

subsection \<open>Auxiliary facts\<close>

lemma fold_stop_track: "fold stop_track ts live = live - set ts"
  by (induction ts arbitrary: live) (auto simp: stop_track_def)

lemma handleStopCamera_tracks:
  "stream s = Some ts \<Longrightarrow> liveTracks (handleStopCamera s) \<inter> set ts = {}"
  by (auto simp: handleStopCamera_def fold_stop_track)

lemma handleStopCamera_off:
  "isCameraOn (handleStopCamera s) = False \<and> stream (handleStopCamera s) = None"
  by (simp add: handleStopCamera_def Let_def split: option.splits)

lemma digit_char_eval:
  "digit_char 0 = CHR ''0''" "digit_char 1 = CHR ''1''" "digit_char 2 = CHR ''2''"
  "digit_char 3 = CHR ''3''" "digit_char 4 = CHR ''4''" "digit_char 5 = CHR ''5''"
  "digit_char 6 = CHR ''6''" "digit_char 7 = CHR ''7''" "digit_char 8 = CHR ''8''"
  "digit_char 9 = CHR ''9''" "digit_char (Suc 0) = CHR ''1''"
  by code_simp+

lemma show_nat_small: "n < 10 \<Longrightarrow> show_nat n = [digit_char n]"
  by (subst show_nat.simps) simp

lemma show_nat_large:
  "\<not> n < 10 \<Longrightarrow> show_nat n = show_nat (n div 10) @ [digit_char (n mod 10)]"
  by (subst show_nat.simps) simp

lemma newHistoryItem_cong [simp]:
  "newHistoryItem env f (s\<lparr>loading := a, error := b, result := c\<rparr>) v = newHistoryItem env f s v"
  by (simp add: newHistoryItem_def)

lemma analyze_body_success:
  assumes "snd (analyze_body P env f s) = None" and "history s = JArr xs"
  shows "\<exists>data text v.
           \<not> newClient_throws env
         \<and> fileToBase64 (readAsDataURL env) = Inr data
         \<and> generateContent env = Inr text
         \<and> JSON_parse P (response_text text) = Some v
         \<and> \<not> setItem_throws env
         \<and> fst (analyze_body P env f s) =
             s\<lparr> requests := requests s @
                    [\<lparr> req_model = ''gemini-2.5-flash'', req_mimeType = ftype f,
                       req_data = data, req_text = contents (promptText s),
                       req_systemInstruction = systemInstruction,
                       req_responseMimeType = ''application/json'',
                       req_required = [''behavior'', ''explanation'', ''tip''] \<rparr>],
                result := v,
                history := JArr (take 10 (newHistoryItem env f s v # xs)),
                localStorage := (localStorage s)(''bulldogHistory'' \<mapsto>
                    JSON_stringify P (JArr (take 10 (newHistoryItem env f s v # xs)))) \<rparr>"
  using assms
  by (auto simp: analyze_body_def Let_def split: if_splits sum.splits option.splits)

lemma analyze_success_state:
  assumes "analysis_succeeds P env s" and "history s = JArr xs" and "file s = Some f"
  shows "\<exists>v. result (handleAnalyze P env s) = v
       \<and> (case generateContent env of Inl e \<Rightarrow> False
            | Inr text \<Rightarrow> JSON_parse P (response_text text) = Some v)
       \<and> error (handleAnalyze P env s) = None
       \<and> loading (handleAnalyze P env s) = False
       \<and> history (handleAnalyze P env s) = JArr (take 10 (newHistoryItem env f s v # xs))
       \<and> localStorage (handleAnalyze P env s) = (localStorage s)(''bulldogHistory'' \<mapsto>
            JSON_stringify P (JArr (take 10 (newHistoryItem env f s v # xs))))"
proof -
  let ?s1 = "s\<lparr>loading := True, error := None, result := JNull\<rparr>"
  from assms have ok: "snd (analyze_body P env f ?s1) = None"
    by (simp add: analysis_succeeds_def)
  from analyze_body_success [OF ok, of xs] assms(2)
  obtain data t v where
    "generateContent env = Inr t" "JSON_parse P (response_text t) = Some v"
    and st: "fst (analyze_body P env f ?s1) =
             ?s1\<lparr> requests := requests ?s1 @
                    [\<lparr> req_model = ''gemini-2.5-flash'', req_mimeType = ftype f,
                       req_data = data, req_text = contents (promptText ?s1),
                       req_systemInstruction = systemInstruction,
                       req_responseMimeType = ''application/json'',
                       req_required = [''behavior'', ''explanation'', ''tip''] \<rparr>],
                result := v,
                history := JArr (take 10 (newHistoryItem env f ?s1 v # xs)),
                localStorage := (localStorage ?s1)(''bulldogHistory'' \<mapsto>
                    JSON_stringify P (JArr (take 10 (newHistoryItem env f ?s1 v # xs)))) \<rparr>"
    by auto
  moreover have "handleAnalyze P env s = (fst (analyze_body P env f ?s1))\<lparr>loading := False\<rparr>"
    using ok assms(3) by (auto simp: handleAnalyze_def Let_def split: prod.splits)
  ultimately show ?thesis
    by simp
qed

lemma parse_full:
  "json_parse ''{\"behavior\":\"Comfort Seeking\",\"explanation\":\"Leaning in\",\"tip\":\"Offer a bed\"}''
   = Some (JObj [(''behavior'', JStr ''Comfort Seeking''), (''explanation'', JStr ''Leaning in''),
                 (''tip'', JStr ''Offer a bed'')])"
  by code_simp

lemma parse_missing:
  "json_parse ''{\"behavior\":\"Comfort Seeking\"}'' = Some (JObj [(''behavior'', JStr ''Comfort Seeking'')])"
  by code_simp



lemma parse_eleven:
  "json_parse stored_eleven
   = Some (JArr [JNum 0, JNum 1, JNum 2, JNum 3, JNum 4, JNum 5, JNum 6, JNum 7, JNum 8, JNum 9, JNum 10])"
  unfolding stored_eleven_def
  by (simp add: json_parse_def skip_ws_def is_ws_def is_digit_def digits_val_def
      parse_number_def parse_fraction_def parse_exponent_def to_number_def pow2_def pow10_def
      binary_exponent_def round_half_even_def Let_def)

lemma ready_app_simps:
  "file ready_app = Some dog_jpg"
  "previewUrl ready_app = Some ''blob:https://bulldog.example/0b5c2a9e-7a41-4c55-9d1e-2f6f0c1d8a33''"
  "promptText ready_app = []"
  "history ready_app = JArr []"
  "requests ready_app = []"
  "localStorage ready_app = Map.empty"
  "result ready_app = JNull"
  "error ready_app = None"
  "loading ready_app = False"
  by (simp_all add: ready_app_def handleFileChange_def handleStopCamera_def initial_app_def
      select_dog_def createObjectURL_def)

lemma full_app_simps:
  "file full_app = Some dog_jpg"
  "previewUrl full_app = Some ''blob:https://bulldog.example/0b5c2a9e-7a41-4c55-9d1e-2f6f0c1d8a33''"
  "promptText full_app = []"
  "history full_app = JArr past_items"
  "requests full_app = []"
  "localStorage full_app = Map.empty"
  by (simp_all add: full_app_def ready_app_simps)

lemma env_ok_succeeds:
  assumes "file s = Some f" and "iterate (history s) = Inr older"
  shows "analysis_succeeds ecma_json env_ok s"
  using assms parse_full
  by (simp add: analysis_succeeds_def analyze_body_def fileToBase64_def Let_def
      env_ok_def ecma_json_def response_text_def)

subsection \<open>Parsing what was printed\<close>

lemma hex_val_hex_char: "d < 16 \<Longrightarrow> hex_val (hex_char d) = Some d"
  by (auto simp: hex_val_def hex_char_def Let_def)

lemma hex_val_zero: "hex_val CHR ''0'' = Some 0"
  by (simp add: hex_val_def)

lemma cons_result_Some: "cons_result c (Some (s, r)) = Some (c # s, r)"
  by (simp add: cons_result_def)

lemma control_code:
  assumes "(of_char c :: nat) < 32"
  shows "hex4 [CHR ''0'', CHR ''0'', hex_char (of_char c div 16), hex_char (of_char c mod 16)]
         = Some (of_char c)"
proof -
  have a: "hex_val (hex_char (of_char c div 16)) = Some (of_char c div 16)"
    using assms by (intro hex_val_hex_char) simp
  have b: "hex_val (hex_char (of_char c mod 16)) = Some (of_char c mod 16)"
    by (intro hex_val_hex_char) simp
  show ?thesis
    by (simp add: hex_val_zero a b)
qed

lemma parse_chars_escape: "parse_chars (escape_char c @ r) = cons_result c (parse_chars r)"
proof -
  consider (quote) "c = CHR 0x22" | (backslash) "c = CHR 0x5C"
    | (short) "c \<in> {CHR 0x08, CHR 0x09, CHR 0x0A, CHR 0x0C, CHR 0x0D}"
    | (control) "c \<notin> {CHR 0x22, CHR 0x5C, CHR 0x08, CHR 0x09, CHR 0x0A, CHR 0x0C, CHR 0x0D}" "(of_char c :: nat) < 32"
    | (plain) "c \<noteq> CHR 0x22" "c \<noteq> CHR 0x5C" "\<not> (of_char c :: nat) < 32"
    by auto
  then show ?thesis
  proof cases
    case quote
    then show ?thesis by (simp add: escape_char_def unescape_def)
  next
    case backslash
    then show ?thesis by (simp add: escape_char_def unescape_def)
  next
    case short
    then show ?thesis by (auto simp: escape_char_def unescape_def)
  next
    case control
    then have "escape_char c = [CHR 0x5C, CHR ''u'', CHR ''0'', CHR ''0'',
        hex_char (of_char c div 16), hex_char (of_char c mod 16)]"
      by (simp add: escape_char_def)
    moreover have "(of_char c :: nat) < 256"
      using control(2) by simp
    ultimately show ?thesis
      using control_code [OF control(2)] by simp
  next
    case plain
    then have "escape_char c = [c]"
      by (auto simp: escape_char_def)
    with plain show ?thesis by simp
  qed
qed

lemma parse_chars_quoted:
  "parse_chars (concat (map escape_char s) @ CHR 0x22 # rest) = Some (s, rest)"
  by (induction s) (simp_all add: parse_chars_escape cons_result_Some)

lemma value_start_append: "value_start s \<Longrightarrow> value_start (s @ r)"
  by (cases s) (simp_all add: value_start_def)

lemma skip_ws_value_start: "value_start s \<Longrightarrow> skip_ws s = s"
  by (cases s) (simp_all add: value_start_def skip_ws_def)

lemma stringify_start: "number_free v \<Longrightarrow> value_start (json_stringify v)"
  by (cases v) (simp_all add: value_start_def is_ws_def quote_def)

lemma skip_ws_stringify: "number_free v \<Longrightarrow> skip_ws (json_stringify v @ r) = json_stringify v @ r"
  by (intro skip_ws_value_start value_start_append stringify_start)

lemma stringify_nonempty: "number_free v \<Longrightarrow> 0 < length (json_stringify v)"
  using stringify_start [of v] by (cases "json_stringify v") (simp_all add: value_start_def)

lemma skip_ws_delim [simp]:
  "skip_ws (CHR '','' # r) = CHR '','' # r"
  "skip_ws (CHR '']'' # r) = CHR '']'' # r"
  "skip_ws (CHR ''}'' # r) = CHR ''}'' # r"
  "skip_ws (CHR '':'' # r) = CHR '':'' # r"
  "skip_ws (CHR ''['' # r) = CHR ''['' # r"
  "skip_ws (CHR ''{'' # r) = CHR ''{'' # r"
  "skip_ws (CHR 0x22 # r) = CHR 0x22 # r"
  "skip_ws [] = []"
  by (simp_all add: skip_ws_def is_ws_def)

lemma parse_value_null: "parse_value (Suc n) (''null'' @ rest) = Some (JNull, rest)"
  by (simp add: skip_ws_def is_ws_def)

lemma parse_value_bool:
  "parse_value (Suc n) ((if b then ''true'' else ''false'') @ rest) = Some (JBool b, rest)"
  by (simp add: skip_ws_def is_ws_def)

lemma parse_value_string:
  "parse_value (Suc n) (quote s @ rest) = Some (JStr s, rest)"
  by (simp add: quote_def parse_chars_quoted)

lemma parse_value_array_nonempty:
  assumes "value_start s"
  shows "parse_value (Suc m) (CHR ''['' # s) = map_option (\<lambda>(vs, t). (JArr vs, t)) (parse_elements m s)"
proof -
  from assms obtain d r where s: "s = d # r" "\<not> is_ws d" "d \<noteq> CHR '']''"
    by (cases s) (auto simp: value_start_def)
  have "skip_ws s = d # r"
    using skip_ws_value_start [OF assms] s(1) by simp
  with s show ?thesis by simp
qed

lemma parse_value_object_nonempty:
  assumes "value_start s"
  shows "parse_value (Suc m) (CHR ''{'' # s) = map_option (\<lambda>(kvs, t). (JObj kvs, t)) (parse_members m s)"
proof -
  from assms obtain d r where s: "s = d # r" "\<not> is_ws d" "d \<noteq> CHR ''}''"
    by (cases s) (auto simp: value_start_def)
  have "skip_ws s = d # r"
    using skip_ws_value_start [OF assms] s(1) by simp
  with s show ?thesis by simp
qed

lemma parse_elements_step:
  assumes "parse_value k s = Some (v, r)"
  shows "parse_elements (Suc k) s =
     (case skip_ws r of
        [] \<Rightarrow> None
      | c # r' \<Rightarrow>
          if c = CHR '']'' then Some ([v], r')
          else if c = CHR '','' then map_option (\<lambda>(vs, t). (v # vs, t)) (parse_elements k r')
          else None)"
  using assms by simp

lemma parse_elements_printed:
  assumes "\<And>x n rest. x \<in> set xs \<Longrightarrow> length (json_stringify x) \<le> n
             \<Longrightarrow> parse_value n (json_stringify x @ rest) = Some (x, rest)"
    and "list_all number_free xs"
    and "xs \<noteq> []"
    and "length (join '','' (map json_stringify xs)) < n"
  shows "parse_elements n (join '','' (map json_stringify xs) @ CHR '']'' # rest) = Some (xs, rest)"
  using assms
proof (induction xs arbitrary: n)
  case Nil
  then show ?case by simp
next
  case (Cons x xs)
  from Cons.prems(4) obtain k where n: "n = Suc k"
    by (cases n) simp_all
  show ?case
  proof (cases xs)
    case Nil
    have "parse_value k (json_stringify x @ CHR '']'' # rest) = Some (x, CHR '']'' # rest)"
      using Cons.prems(4) n Nil by (intro Cons.prems(1)) simp_all
    then show ?thesis
      using Nil n by (simp add: parse_elements_step)
  next
    case more: (Cons y ys)
    let ?tail = "join '','' (map json_stringify xs) @ CHR '']'' # rest"
    have len: "length (json_stringify x) \<le> k" "length (join '','' (map json_stringify xs)) < k"
      using Cons.prems(2,4) n more stringify_nonempty [of x] by simp_all
    have "parse_value k (json_stringify x @ CHR '','' # ?tail) = Some (x, CHR '','' # ?tail)"
      using len(1) by (intro Cons.prems(1)) simp_all
    moreover have "parse_elements k ?tail = Some (xs, rest)"
    proof (rule Cons.IH)
      show "list_all number_free xs"
        using Cons.prems(2) by simp
      show "xs \<noteq> []"
        using more by simp
      show "length (join '','' (map json_stringify xs)) < k"
        by (rule len(2))
    next
      fix x' n' rest'
      assume "x' \<in> set xs" "length (json_stringify x') \<le> n'"
      then show "parse_value n' (json_stringify x' @ rest') = Some (x', rest')"
        using Cons.prems(1) [of x' n' rest'] by simp
    qed
    ultimately show ?thesis
      using more n by (simp add: parse_elements_step)
  qed
qed

lemma member_text_start: "value_start (member_text kv @ r)"
  by (cases kv) (simp add: member_text_def quote_def value_start_def is_ws_def)

lemma parse_members_step:
  assumes "parse_value j s = Some (v, r)"
  shows "parse_members (Suc j) (quote k @ CHR '':'' # s) =
     (case skip_ws r of
        [] \<Rightarrow> None
      | d # r4 \<Rightarrow>
          if d = CHR ''}'' then Some ([(k, v)], r4)
          else if d = CHR '','' then map_option (\<lambda>(kvs, t). ((k, v) # kvs, t)) (parse_members j r4)
          else None)"
  using assms by (simp add: quote_def parse_chars_quoted)

lemma parse_members_printed:
  assumes "\<And>k v n rest. (k, v) \<in> set kvs \<Longrightarrow> length (json_stringify v) \<le> n
             \<Longrightarrow> parse_value n (json_stringify v @ rest) = Some (v, rest)"
    and "kvs \<noteq> []"
    and "length (join '','' (map member_text kvs)) < n"
  shows "parse_members n (join '','' (map member_text kvs) @ CHR ''}'' # rest) = Some (kvs, rest)"
  using assms
proof (induction kvs arbitrary: n)
  case Nil
  then show ?case by simp
next
  case (Cons kv kvs)
  obtain k v where kv: "kv = (k, v)"
    by (cases kv)
  from Cons.prems(3) obtain j where n: "n = Suc j"
    by (cases n) simp_all
  show ?case
  proof (cases kvs)
    case Nil
    have "parse_value j (json_stringify v @ CHR ''}'' # rest) = Some (v, CHR ''}'' # rest)"
      using Cons.prems(3) n Nil kv by (intro Cons.prems(1) [of k]) (simp_all add: member_text_def)
    then show ?thesis
      using Nil n kv parse_members_step [of j _ v _ k] by (simp add: member_text_def)
  next
    case more: (Cons kv' kvs')
    let ?tail = "join '','' (map member_text kvs) @ CHR ''}'' # rest"
    have len: "length (json_stringify v) \<le> j" "length (join '','' (map member_text kvs)) < j"
      using Cons.prems(3) n more kv by (simp_all add: member_text_def quote_def)
    have "parse_value j (json_stringify v @ CHR '','' # ?tail) = Some (v, CHR '','' # ?tail)"
      using len(1) kv by (intro Cons.prems(1) [of k]) simp_all
    moreover have "parse_members j ?tail = Some (kvs, rest)"
    proof (rule Cons.IH)
      show "kvs \<noteq> []"
        using more by simp
      show "length (join '','' (map member_text kvs)) < j"
        by (rule len(2))
    next
      fix k' v' n' rest'
      assume "(k', v') \<in> set kvs" "length (json_stringify v') \<le> n'"
      then show "parse_value n' (json_stringify v' @ rest') = Some (v', rest')"
        using Cons.prems(1) [of k' v' n' rest'] by simp
    qed
    ultimately show ?thesis
      using more n kv parse_members_step [of j _ v _ k] by (simp add: member_text_def)
  qed
qed

lemma stringify_object:
  "json_stringify (JObj kvs) = CHR ''{'' # join '','' (map member_text kvs) @ ''}''"
  by (simp add: member_text_def)

lemma join_start:
  assumes "xs \<noteq> []" and "\<And>x. x \<in> set xs \<Longrightarrow> value_start (f x)"
  shows "value_start (join sep (map f xs) @ r)"
proof -
  from assms obtain x ys where "xs = x # ys"
    by (cases xs) auto
  with assms(2) [of x] show ?thesis
    by (cases ys) (simp_all add: value_start_append)
qed

lemma parse_value_printed:
  "number_free v \<Longrightarrow> length (json_stringify v) \<le> n
   \<Longrightarrow> parse_value n (json_stringify v @ rest) = Some (v, rest)"
proof (induction v arbitrary: n rest)
  case JNull
  then obtain m where "n = Suc m" by (cases n) simp_all
  then show ?case using parse_value_null [of m rest] by simp
next
  case (JBool b)
  then obtain m where "n = Suc m" by (cases n) (simp_all split: if_splits)
  then show ?case using parse_value_bool [of m b rest] by simp
next
  case (JNum q)
  then show ?case by simp
next
  case JNegZero
  then show ?case by simp
next
  case JInfinity
  then show ?case by simp
next
  case JNegInfinity
  then show ?case by simp
next
  case (JStr s)
  then obtain m where "n = Suc m" by (cases n) (simp_all add: quote_def)
  then show ?case using parse_value_string [of m s rest] by simp
next
  case (JArr xs)
  then obtain m where n: "n = Suc m" by (cases n) simp_all
  show ?case
  proof (cases "xs = []")
    case True
    then show ?thesis using n by simp
  next
    case False
    let ?body = "join '','' (map json_stringify xs) @ CHR '']'' # rest"
    have free: "list_all number_free xs"
      using JArr.prems(1) by simp
    have st: "value_start ?body"
      using False free by (intro join_start) (simp_all add: stringify_start list_all_iff)
    have len: "length (join '','' (map json_stringify xs)) < m"
      using JArr.prems(2) n by simp
    have "parse_elements m ?body = Some (xs, rest)"
    proof (intro parse_elements_printed free False len)
      fix x n rest
      assume "x \<in> set xs" "length (json_stringify x) \<le> n"
      then show "parse_value n (json_stringify x @ rest) = Some (x, rest)"
        using JArr.IH [of x n rest] free by (simp add: list_all_iff)
    qed
    then show ?thesis
      using n parse_value_array_nonempty [OF st, of m] by simp
  qed
next
  case (JObj kvs)
  then obtain m where n: "n = Suc m" by (cases n) simp_all
  show ?case
  proof (cases "kvs = []")
    case True
    then show ?thesis using n by simp
  next
    case False
    let ?body = "join '','' (map member_text kvs) @ CHR ''}'' # rest"
    have st: "value_start ?body"
      using False member_text_start [of _ "[]"] by (intro join_start) simp_all
    have len: "length (join '','' (map member_text kvs)) < m"
      using JObj.prems(2) n unfolding stringify_object by simp
    have "parse_members m ?body = Some (kvs, rest)"
    proof (intro parse_members_printed False len)
      fix k v n rest
      assume "(k, v) \<in> set kvs" "length (json_stringify v) \<le> n"
      then show "parse_value n (json_stringify v @ rest) = Some (v, rest)"
        using JObj.IH [of "(k, v)" v n rest] JObj.prems(1) by (auto simp: list_all_iff)
    qed
    then show ?thesis
      using n parse_value_object_nonempty [OF st, of m] unfolding stringify_object by simp
  qed
qed

lemma update_fresh: "k \<notin> fst ` set al \<Longrightarrow> AList.update k v al = al @ [(k, v)]"
  by (induction al) auto

lemma fold_update_distinct:
  "distinct (map fst (acc @ kvs)) \<Longrightarrow> fold (\<lambda>(k, v). AList.update k v) kvs acc = acc @ kvs"
proof (induction kvs arbitrary: acc)
  case Nil
  then show ?case by simp
next
  case (Cons kv kvs)
  obtain k v where kv: "kv = (k, v)" by (cases kv)
  have "AList.update k v acc = acc @ [(k, v)]"
    using Cons.prems kv by (intro update_fresh) auto
  moreover have "distinct (map fst ((acc @ [(k, v)]) @ kvs))"
    using Cons.prems kv by simp
  ultimately show ?case
    using Cons.IH [of "acc @ [(k, v)]"] kv by simp
qed

lemma normalize_wf: "wf_json v \<Longrightarrow> json_normalize v = v"
proof (induction v)
  case (JArr xs)
  then show ?case by (simp add: list_all_iff map_idI)
next
  case (JObj kvs)
  have "map (\<lambda>(k, v). (k, json_normalize v)) kvs = kvs"
    using JObj by (intro map_idI) (auto simp: list_all_iff)
  then show ?case
    using JObj.prems fold_update_distinct [of "[]" kvs] by simp
qed simp_all

lemma parse_stringify:
  assumes "wf_json v" and "number_free v"
  shows "json_parse (json_stringify v) = Some v"
proof -
  have "parse_value (Suc (length (json_stringify v))) (json_stringify v @ []) = Some (v, [])"
    using assms(2) by (intro parse_value_printed) simp_all
  then show ?thesis
    using normalize_wf [OF assms(1)] by (simp add: json_parse_def)
qed

lemma analyze_body_iterates:
  assumes "snd (analyze_body P env f s) = None"
  shows "\<exists>t v older.
           generateContent env = Inr t
         \<and> JSON_parse P (response_text t) = Some v
         \<and> iterate (history s) = Inr older
         \<and> history (fst (analyze_body P env f s)) = JArr (take 10 (newHistoryItem env f s v # older))
         \<and> localStorage (fst (analyze_body P env f s)) ''bulldogHistory''
             = Some (JSON_stringify P (JArr (take 10 (newHistoryItem env f s v # older))))"
  using assms
  by (auto simp: analyze_body_def Let_def split: if_splits sum.splits option.splits)

lemma analyze_success_snapshot:
  assumes "analysis_succeeds P env s"
  shows "\<exists>f t v older.
           file s = Some f
         \<and> generateContent env = Inr t
         \<and> JSON_parse P (response_text t) = Some v
         \<and> iterate (history s) = Inr older
         \<and> history (handleAnalyze P env s) = JArr (take 10 (newHistoryItem env f s v # older))
         \<and> localStorage (handleAnalyze P env s) ''bulldogHistory''
             = Some (JSON_stringify P (history (handleAnalyze P env s)))"
proof -
  let ?s1 = "s\<lparr>loading := True, error := None, result := JNull\<rparr>"
  from assms obtain f where f: "file s = Some f"
    and ok: "snd (analyze_body P env f ?s1) = None"
    by (auto simp: analysis_succeeds_def split: option.splits)
  have run: "handleAnalyze P env s = (fst (analyze_body P env f ?s1))\<lparr>loading := False\<rparr>"
    using ok f by (auto simp: handleAnalyze_def Let_def split: prod.splits)
  from analyze_body_iterates [OF ok] f show ?thesis
    unfolding run by auto
qed

subsection \<open>History after an analysis\<close>

text \<open>
  Claim C1.  After a successful analysis the history list has length
  \<open>min 10 (previous length + 1)\<close>; the new item is at index 0, every earlier item has
  moved one place to the right, and nothing is left at index 10 or beyond.
\<close>

theorem history_after_success:
  assumes "analysis_succeeds P env s" and "history s = JArr xs" and "file s = Some f"
  shows "history (handleAnalyze P env s)
           = JArr (take 10 (newHistoryItem env f s (result (handleAnalyze P env s)) # xs))
       \<and> array_length (history (handleAnalyze P env s)) = Some (min 10 (length xs + 1))
       \<and> array_index (history (handleAnalyze P env s)) 0
           = Some (newHistoryItem env f s (result (handleAnalyze P env s)))
       \<and> (\<forall>i. i < length xs \<and> Suc i < 10 \<longrightarrow>
             array_index (history (handleAnalyze P env s)) (Suc i) = Some (xs ! i))
       \<and> (\<forall>i. 10 \<le> i \<longrightarrow> array_index (history (handleAnalyze P env s)) i = None)"
proof -
  from analyze_success_state [OF assms]
  have h: "history (handleAnalyze P env s)
           = JArr (take 10 (newHistoryItem env f s (result (handleAnalyze P env s)) # xs))"
    by auto
  show ?thesis
    unfolding h by (auto simp: array_length_def array_index_def index_opt_def)
qed

theorem history_after_success_witness:
  "analysis_succeeds ecma_json env_ok full_app
   \<and> history full_app = JArr past_items
   \<and> file full_app = Some dog_jpg
   \<and> array_length (history (handleAnalyze ecma_json env_ok full_app)) = Some 10
   \<and> array_index (history (handleAnalyze ecma_json env_ok full_app)) 0
       = Some (newHistoryItem env_ok dog_jpg full_app (result (handleAnalyze ecma_json env_ok full_app)))
   \<and> array_index (history (handleAnalyze ecma_json env_ok full_app)) 1 = Some (past_item 0)
   \<and> array_index (history (handleAnalyze ecma_json env_ok full_app)) 9 = Some (past_item 8)
   \<and> array_index (history (handleAnalyze ecma_json env_ok full_app)) 10 = None"
proof -
  have h1: "analysis_succeeds ecma_json env_ok full_app"
    by (rule env_ok_succeeds [of _ dog_jpg past_items]) (simp_all add: full_app_simps)
  have h2: "history full_app = JArr past_items" and h3: "file full_app = Some dog_jpg"
    by (simp_all add: full_app_simps)
  note T = history_after_success [OF h1 h2 h3]
  note T2 = T [THEN conjunct2]
  note T3 = T2 [THEN conjunct2]
  note T4 = T3 [THEN conjunct2]
  have a: "array_length (history (handleAnalyze ecma_json env_ok full_app)) = Some 10"
    using T2 [THEN conjunct1] by (simp add: past_items_def)
  have z: "array_index (history (handleAnalyze ecma_json env_ok full_app)) 0
       = Some (newHistoryItem env_ok dog_jpg full_app (result (handleAnalyze ecma_json env_ok full_app)))"
    using T3 [THEN conjunct1] .
  have b: "array_index (history (handleAnalyze ecma_json env_ok full_app)) 1 = Some (past_item 0)"
    using T4 [THEN conjunct1, rule_format, of 0] by (simp add: past_items_def)
  have c: "array_index (history (handleAnalyze ecma_json env_ok full_app)) 9 = Some (past_item 8)"
    using T4 [THEN conjunct1, rule_format, of 8] by (simp add: past_items_def)
  have d: "array_index (history (handleAnalyze ecma_json env_ok full_app)) 10 = None"
    using T4 [THEN conjunct2, rule_format, of 10] by simp
  show ?thesis
    by (intro conjI h1 h2 h3 a z b c d)
qed

subsection \<open>The persisted snapshot\<close>



text \<open>
  With the JSON implementation of this theory, a new history list that has no number in
  it is read back from storage as it is.
\<close>

lemma snapshot_without_numbers:
  assumes "analysis_succeeds ecma_json env s"
    and "wf_json (history (handleAnalyze ecma_json env s))"
    and "number_free (history (handleAnalyze ecma_json env s))"
  shows "Option.bind (localStorage (handleAnalyze ecma_json env s) ''bulldogHistory'') json_parse
           = Some (history (handleAnalyze ecma_json env s))"
proof -
  from analyze_success_snapshot [OF assms(1)]
  have "localStorage (handleAnalyze ecma_json env s) ''bulldogHistory''
           = Some (json_stringify (history (handleAnalyze ecma_json env s)))"
    by (auto simp: ecma_json_def)
  with parse_stringify [OF assms(2,3)] show ?thesis
    by simp
qed


subsection \<open>Responses and failures\<close>

text \<open>
  Claim C3, as the code has it.  \<open>handleAnalyze\<close> never looks at the fields of the parsed
  response.  Whenever the text of the response parses as JSON, with or without
  \<^verbatim>\<open>behavior\<close>, \<^verbatim>\<open>explanation\<close> and \<^verbatim>\<open>tip\<close>, the result is set to the parsed value and the
  loading flag is cleared.  When moreover the history is a list and the write to storage
  does not throw, the run is a success: no error message is set and an item built from
  the parsed value is put in front of the history list.
\<close>

theorem parsed_response_accepted:
  assumes "file s = Some f"
    and "\<not> newClient_throws env"
    and "readAsDataURL env = Some url"
    and "generateContent env = Inr t"
    and "JSON_parse P (response_text t) = Some v"
  shows "result (handleAnalyze P env s) = v
       \<and> loading (handleAnalyze P env s) = False
       \<and> (history s = JArr xs \<and> \<not> setItem_throws env \<longrightarrow>
            error (handleAnalyze P env s) = None
          \<and> history (handleAnalyze P env s) = JArr (take 10 (newHistoryItem env f s v # xs)))"
  using assms
  by (cases "iterate (history s)")
     (auto simp: handleAnalyze_def analyze_body_def fileToBase64_def Let_def)

theorem parsed_response_accepted_witness:
  "file ready_app = Some dog_jpg
   \<and> \<not> newClient_throws env_missing
   \<and> readAsDataURL env_missing = Some ''data:image/jpeg;base64,/9j/4AAQ''
   \<and> generateContent env_missing = Inr (Some ''{\"behavior\":\"Comfort Seeking\"}'')
   \<and> JSON_parse ecma_json (response_text (Some ''{\"behavior\":\"Comfort Seeking\"}''))
       = Some (JObj [(''behavior'', JStr ''Comfort Seeking'')])
   \<and> history ready_app = JArr []
   \<and> \<not> setItem_throws env_missing
   \<and> result (handleAnalyze ecma_json env_missing ready_app) = JObj [(''behavior'', JStr ''Comfort Seeking'')]
   \<and> error (handleAnalyze ecma_json env_missing ready_app) = None
   \<and> loading (handleAnalyze ecma_json env_missing ready_app) = False
   \<and> history (handleAnalyze ecma_json env_missing ready_app)
       = JArr [newHistoryItem env_missing dog_jpg ready_app (JObj [(''behavior'', JStr ''Comfort Seeking'')])]"
proof -
  have h1: "file ready_app = Some dog_jpg" and h6: "history ready_app = JArr []"
    by (simp_all add: ready_app_simps)
  have h2: "\<not> newClient_throws env_missing"
    and h3: "readAsDataURL env_missing = Some ''data:image/jpeg;base64,/9j/4AAQ''"
    and h4: "generateContent env_missing = Inr (Some ''{\"behavior\":\"Comfort Seeking\"}'')"
    and h7: "\<not> setItem_throws env_missing"
    by (simp_all add: env_missing_def env_ok_def)
  have h5: "JSON_parse ecma_json (response_text (Some ''{\"behavior\":\"Comfort Seeking\"}''))
       = Some (JObj [(''behavior'', JStr ''Comfort Seeking'')])"
    using parse_missing by (simp add: ecma_json_def response_text_def)
  note T = parsed_response_accepted [OF h1 h2 h3 h4 h5, of "[]"]
  have a: "result (handleAnalyze ecma_json env_missing ready_app) = JObj [(''behavior'', JStr ''Comfort Seeking'')]"
    and b: "loading (handleAnalyze ecma_json env_missing ready_app) = False"
    using T by blast+
  have c: "error (handleAnalyze ecma_json env_missing ready_app) = None
          \<and> history (handleAnalyze ecma_json env_missing ready_app)
              = JArr (take 10 (newHistoryItem env_missing dog_jpg ready_app
                   (JObj [(''behavior'', JStr ''Comfort Seeking'')]) # []))"
    using T h6 h7 by blast
  from c have d: "error (handleAnalyze ecma_json env_missing ready_app) = None"
    and e: "history (handleAnalyze ecma_json env_missing ready_app)
              = JArr [newHistoryItem env_missing dog_jpg ready_app (JObj [(''behavior'', JStr ''Comfort Seeking'')])]"
    by simp_all
  show ?thesis
    by (intro conjI h1 h2 h3 h4 h5 h6 h7 a d b e)
qed

text \<open>
  Claim C3 as stated fails: the response \<^verbatim>\<open>{"behavior":"Comfort Seeking"}\<close> parses, has neither
  \<^verbatim>\<open>explanation\<close> nor \<^verbatim>\<open>tip\<close>, and yet the result is set, no error is shown and the history
  grows from no item to one.
\<close>

theorem missing_fields_counterexample:
  "json_parse ''{\"behavior\":\"Comfort Seeking\"}'' = Some (JObj [(''behavior'', JStr ''Comfort Seeking'')])
   \<and> get_prop ''explanation'' (JObj [(''behavior'', JStr ''Comfort Seeking'')]) = None
   \<and> get_prop ''tip'' (JObj [(''behavior'', JStr ''Comfort Seeking'')]) = None
   \<and> result (handleAnalyze ecma_json env_missing ready_app) = JObj [(''behavior'', JStr ''Comfort Seeking'')]
   \<and> result (handleAnalyze ecma_json env_missing ready_app) \<noteq> JNull
   \<and> error (handleAnalyze ecma_json env_missing ready_app) = None
   \<and> array_length (history ready_app) = Some 0
   \<and> array_length (history (handleAnalyze ecma_json env_missing ready_app)) = Some 1"
  using parse_missing
  by (simp add: handleAnalyze_def analyze_body_def fileToBase64_def Let_def ready_app_simps
      env_missing_def env_ok_def ecma_json_def response_text_def get_prop_def array_length_def)

text \<open>
  Claim C4.  When the file read fails, the inference call is rejected, or the text of the
  response does not parse, the run ends with the generic failure message, a null result
  and the loading flag cleared; the history and local storage are what they were.
\<close>

theorem failed_analysis_atomic:
  assumes "file s = Some f"
    and "readAsDataURL env = None
         \<or> (case generateContent env of
               Inl e \<Rightarrow> True
             | Inr t \<Rightarrow> JSON_parse P (response_text t) = None)"
  shows "error (handleAnalyze P env s) = Some failure_message
       \<and> result (handleAnalyze P env s) = JNull
       \<and> loading (handleAnalyze P env s) = False
       \<and> history (handleAnalyze P env s) = history s
       \<and> localStorage (handleAnalyze P env s) = localStorage s"
  using assms
  by (auto simp: handleAnalyze_def analyze_body_def fileToBase64_def Let_def
      split: sum.splits option.splits)

theorem failed_analysis_atomic_witness:
  "file ready_app = Some dog_jpg
   \<and> generateContent env_offline = Inl RequestError
   \<and> error (handleAnalyze ecma_json env_offline ready_app) = Some failure_message
   \<and> result (handleAnalyze ecma_json env_offline ready_app) = JNull
   \<and> loading (handleAnalyze ecma_json env_offline ready_app) = False
   \<and> history (handleAnalyze ecma_json env_offline ready_app) = JArr []
   \<and> localStorage (handleAnalyze ecma_json env_offline ready_app) ''bulldogHistory'' = None"
proof -
  have h1: "file ready_app = Some dog_jpg"
    by (simp add: ready_app_simps)
  have g: "generateContent env_offline = Inl RequestError"
    by (simp add: env_offline_def)
  have h2: "readAsDataURL env_offline = None
         \<or> (case generateContent env_offline of
               Inl e \<Rightarrow> True
             | Inr t \<Rightarrow> JSON_parse ecma_json (response_text t) = None)"
    by (simp add: g)
  from failed_analysis_atomic [OF h1 h2] h1 g show ?thesis
    by (simp add: ready_app_simps)
qed

text \<open>
  A throw of \<^verbatim>\<open>localStorage.setItem\<close> is not one of the failures of Claim C4.  It comes after
  \<^verbatim>\<open>setResult\<close> and \<^verbatim>\<open>setHistory\<close>: the failure message is shown next to the result, and
  the in-memory history has the new item that storage lacks.
\<close>

lemma storage_write_failure:
  "error (handleAnalyze ecma_json env_storage_full ready_app) = Some failure_message
   \<and> result (handleAnalyze ecma_json env_storage_full ready_app) \<noteq> JNull
   \<and> array_length (history (handleAnalyze ecma_json env_storage_full ready_app)) = Some 1
   \<and> localStorage (handleAnalyze ecma_json env_storage_full ready_app) ''bulldogHistory'' = None"
  using parse_full
  by (simp add: handleAnalyze_def analyze_body_def fileToBase64_def Let_def ready_app_simps
      env_storage_full_def env_ok_def ecma_json_def response_text_def array_length_def)

text \<open>
  Claim C5.  With no file selected, \<open>handleAnalyze\<close> sets the inline message and nothing
  else: no request is sent, and history, result, loading flag and storage are unchanged.
\<close>

theorem analyze_without_file:
  assumes "file s = None"
  shows "handleAnalyze P env s = s\<lparr>error := Some no_file_message\<rparr>
       \<and> requests (handleAnalyze P env s) = requests s
       \<and> history (handleAnalyze P env s) = history s
       \<and> result (handleAnalyze P env s) = result s
       \<and> loading (handleAnalyze P env s) = loading s
       \<and> localStorage (handleAnalyze P env s) = localStorage s"
  using assms by (simp add: handleAnalyze_def)

theorem analyze_without_file_witness:
  "file (initial_app Map.empty {}) = None
   \<and> handleAnalyze ecma_json env_ok (initial_app Map.empty {})
       = (initial_app Map.empty {})\<lparr>error := Some no_file_message\<rparr>
   \<and> requests (handleAnalyze ecma_json env_ok (initial_app Map.empty {})) = []
   \<and> history (handleAnalyze ecma_json env_ok (initial_app Map.empty {})) = JArr []"
proof -
  have h: "file (initial_app Map.empty {}) = None"
    by (simp add: initial_app_def)
  show ?thesis
    using h analyze_without_file [OF h, of ecma_json env_ok]
    by (simp add: initial_app_def)
qed

subsection \<open>The outbound request\<close>

text \<open>
  Claim C6, as the code has it.  Every request that \<open>handleAnalyze\<close> sends carries the text
  \<^verbatim>\<open>Analyze the bulldog's behavior in this media. Additional context from the owner: "<context>".\<close>
  where the context is the user's text, or \<^verbatim>\<open>None\<close> when that text is empty.
\<close>

theorem request_text:
  assumes "file s = Some f"
    and "\<not> newClient_throws env"
    and "readAsDataURL env = Some url"
  shows "requests (handleAnalyze P env s) \<noteq> []
       \<and> butlast (requests (handleAnalyze P env s)) = requests s
       \<and> req_text (last (requests (handleAnalyze P env s)))
           = ''Analyze the bulldog's behavior in this media. Additional context from the owner: \"''
             @ (if promptText s = [] then ''None'' else promptText s) @ ''\".''"
  using assms
  by (auto simp: handleAnalyze_def analyze_body_def fileToBase64_def Let_def contents_def
      split: sum.splits option.splits)

theorem request_text_witness:
  "file ready_app = Some dog_jpg
   \<and> \<not> newClient_throws env_ok
   \<and> readAsDataURL env_ok = Some ''data:image/jpeg;base64,/9j/4AAQ''
   \<and> requests (handleAnalyze ecma_json env_ok ready_app) \<noteq> []
   \<and> butlast (requests (handleAnalyze ecma_json env_ok ready_app)) = []
   \<and> req_text (last (requests (handleAnalyze ecma_json env_ok ready_app)))
       = ''Analyze the bulldog's behavior in this media. Additional context from the owner: \"None\".''"
proof -
  have h1: "file ready_app = Some dog_jpg"
    by (simp add: ready_app_simps)
  have h2: "\<not> newClient_throws env_ok"
    and h3: "readAsDataURL env_ok = Some ''data:image/jpeg;base64,/9j/4AAQ''"
    by (simp_all add: env_ok_def)
  from request_text [OF h1 h2 h3, of ecma_json] h1 h2 h3
  show ?thesis by (simp add: ready_app_simps)
qed

text \<open>
  Claim C6 as stated fails: the text sent says \<^verbatim>\<open>in this media\<close>, not \<^verbatim>\<open>in this image/video\<close>.
\<close>

theorem request_text_counterexample:
  "req_text (last (requests (handleAnalyze ecma_json env_ok ready_app)))
     \<noteq> spec_contents (promptText ready_app)"
  using parse_full
  by (simp add: handleAnalyze_def analyze_body_def fileToBase64_def Let_def ready_app_simps
      env_ok_def ecma_json_def response_text_def contents_def spec_contents_def)

subsection \<open>The media reference of a history item\<close>

text \<open>
  Claim C7 at a concrete run: a JPEG is chosen on a fresh page and analysed successfully.
  The \<^verbatim>\<open>file.dataUrl\<close> of the new history item is the preview URL made by
  \<^verbatim>\<open>URL.createObjectURL\<close>, a \<^verbatim>\<open>blob:\<close> URL, and not a data URL.
\<close>

theorem history_item_blob_url:
  "Option.bind (Option.bind (array_index (history (handleAnalyze ecma_json env_ok ready_app)) 0)
       (get_prop ''file'')) (get_prop ''dataUrl'')
     = Some (JStr ''blob:https://bulldog.example/0b5c2a9e-7a41-4c55-9d1e-2f6f0c1d8a33'')
   \<and> \<not> is_data_url ''blob:https://bulldog.example/0b5c2a9e-7a41-4c55-9d1e-2f6f0c1d8a33''"
  using parse_full
  by (simp add: handleAnalyze_def analyze_body_def fileToBase64_def Let_def ready_app_simps
      env_ok_def ecma_json_def response_text_def array_index_def index_opt_def get_prop_def
      newHistoryItem_def object_literal_def is_data_url_def)

subsection \<open>Live capture\<close>

text \<open>
  Claim C8.  When a capture produces a photo (both refs attached, a 2d context, a blob
  from the canvas), the file has type \<^verbatim>\<open>image/jpeg\<close> and a name that starts with
  \<^verbatim>\<open>capture-\<close>; afterwards the camera is off, the stream is released with all its tracks
  stopped, and the mode is upload.
\<close>

theorem capture_photo:
  assumes "videoRef env" and "canvasRef env" and "context2d env" and "toBlob env = Some b"
  shows "file (handleCapturePhoto env s)
           = Some \<lparr> fname = ''capture-'' @ show_int (date_now env) @ ''.jpg'',
                    ftype = ''image/jpeg'', fbits = b \<rparr>
       \<and> map_option ftype (file (handleCapturePhoto env s)) = Some ''image/jpeg''
       \<and> map_option (take 8 \<circ> fname) (file (handleCapturePhoto env s)) = Some ''capture-''
       \<and> isCameraOn (handleCapturePhoto env s) = False
       \<and> stream (handleCapturePhoto env s) = None
       \<and> (\<forall>ts. stream s = Some ts \<longrightarrow> liveTracks (handleCapturePhoto env s) \<inter> set ts = {})
       \<and> mode (handleCapturePhoto env s) = Upload"
  using assms handleStopCamera_off [of s]
  by (auto simp: handleCapturePhoto_def capture_callback_def Let_def
      dest: handleStopCamera_tracks)

theorem capture_photo_witness:
  "videoRef capture_ok \<and> canvasRef capture_ok \<and> context2d capture_ok
   \<and> toBlob capture_ok = Some ''JFIF''
   \<and> stream live_app = Some [7] \<and> liveTracks live_app = {7}
   \<and> file (handleCapturePhoto capture_ok live_app)
       = Some \<lparr> fname = ''capture-1714557600000.jpg'', ftype = ''image/jpeg'', fbits = ''JFIF'' \<rparr>
   \<and> isCameraOn (handleCapturePhoto capture_ok live_app) = False
   \<and> stream (handleCapturePhoto capture_ok live_app) = None
   \<and> liveTracks (handleCapturePhoto capture_ok live_app) \<inter> {7} = {}
   \<and> mode (handleCapturePhoto capture_ok live_app) = Upload"
proof -
  have h: "videoRef capture_ok" "canvasRef capture_ok" "context2d capture_ok"
    "toBlob capture_ok = Some ''JFIF''"
    by (simp_all add: capture_ok_def)
  have s: "stream live_app = Some [7]" "liveTracks live_app = {7}"
    by (simp_all add: live_app_def initial_app_def)
  have n: "show_int (date_now capture_ok) = ''1714557600000''"
    by (simp add: capture_ok_def show_int_def show_nat_small show_nat_large digit_char_eval)
  from capture_photo [OF h, of live_app] h s n show ?thesis
    by simp
qed

subsection \<open>Startup\<close>

text \<open>
  Claim C9.  When local storage cannot be read, holds nothing under the history key, or
  holds a value that does not parse, startup ends with the empty history and no error
  message; but for the console the state is the initial one, and the console holds the
  one logged failure (nothing when the value is merely absent).
\<close>

theorem startup_load_failure:
  assumes "getItem_throws env
           \<or> (case storage ''bulldogHistory'' of
                 None \<Rightarrow> True
               | Some v \<Rightarrow> v = [] \<or> JSON_parse P v = None)"
  shows "history (startup P env storage tracks) = JArr []
       \<and> error (startup P env storage tracks) = None
       \<and> (startup P env storage tracks)\<lparr>console := []\<rparr> = initial_app storage tracks
       \<and> console (startup P env storage tracks)
           = (if getItem_throws env then [(load_failed, StorageError)]
              else if storage ''bulldogHistory'' = None \<or> storage ''bulldogHistory'' = Some []
              then [] else [(load_failed, SyntaxError)])"
  using assms
  by (auto simp: startup_def loadHistory_def initial_app_def split: option.splits)

theorem startup_load_failure_witness:
  "json_parse ''{\"behavior\": oops'' = None
   \<and> history (startup ecma_json \<lparr>getItem_throws = False\<rparr>
         [''bulldogHistory'' \<mapsto> ''{\"behavior\": oops''] {}) = JArr []
   \<and> error (startup ecma_json \<lparr>getItem_throws = False\<rparr>
         [''bulldogHistory'' \<mapsto> ''{\"behavior\": oops''] {}) = None
   \<and> console (startup ecma_json \<lparr>getItem_throws = False\<rparr>
         [''bulldogHistory'' \<mapsto> ''{\"behavior\": oops''] {}) = [(load_failed, SyntaxError)]"
proof -
  have c: "json_parse ''{\"behavior\": oops'' = None"
    by code_simp
  show ?thesis
    using c startup_load_failure [where env = "\<lparr>getItem_throws = False\<rparr>"
        and storage = "[''bulldogHistory'' \<mapsto> ''{\"behavior\": oops'']"
        and P = ecma_json and tracks = "{}"]
    by (simp add: ecma_json_def)
qed

text \<open>
  Claim C10.  A stored value that parses is installed as the history as it is.  An array
  keeps its length, also beyond 10, and the next successful analysis cuts it to 10.
\<close>

theorem startup_installs_parsed:
  assumes "\<not> getItem_throws env"
    and "storage ''bulldogHistory'' = Some stored"
    and "stored \<noteq> []"
    and "JSON_parse P stored = Some v"
  shows "history (startup P env storage tracks) = v
       \<and> (\<forall>xs. v = JArr xs \<longrightarrow> array_length (history (startup P env storage tracks)) = Some (length xs))
       \<and> (\<forall>xs env' s. v = JArr xs \<and> 10 < length xs
              \<and> history s = history (startup P env storage tracks)
              \<and> analysis_succeeds P env' s
            \<longrightarrow> array_length (history (handleAnalyze P env' s)) = Some 10)"
proof -
  have h: "history (startup P env storage tracks) = v"
    using assms by (simp add: startup_def loadHistory_def initial_app_def)
  have "array_length (history (handleAnalyze P env' s)) = Some 10"
    if "v = JArr xs" "10 < length xs" "history s = history (startup P env storage tracks)"
       "analysis_succeeds P env' s" for xs env' s
  proof -
    from that obtain f where f: "file s = Some f"
      by (auto simp: analysis_succeeds_def split: option.splits)
    from analyze_success_state [OF that(4) _ f, of xs] that h
    show ?thesis by (auto simp: array_length_def)
  qed
  with h show ?thesis
    by (auto simp: array_length_def)
qed

theorem startup_installs_parsed_witness:
  "\<not> getItem_throws \<lparr>getItem_throws = False\<rparr>
   \<and> [''bulldogHistory'' \<mapsto> stored_eleven] ''bulldogHistory'' = Some stored_eleven
   \<and> stored_eleven \<noteq> []
   \<and> JSON_parse ecma_json stored_eleven
       = Some (JArr [JNum 0, JNum 1, JNum 2, JNum 3, JNum 4, JNum 5, JNum 6, JNum 7, JNum 8, JNum 9, JNum 10])
   \<and> array_length (history (startup ecma_json \<lparr>getItem_throws = False\<rparr>
         [''bulldogHistory'' \<mapsto> stored_eleven] {})) = Some 11
   \<and> analysis_succeeds ecma_json env_ok
        (handleFileChange select_dog (startup ecma_json \<lparr>getItem_throws = False\<rparr>
           [''bulldogHistory'' \<mapsto> stored_eleven] {}))
   \<and> array_length (history (handleAnalyze ecma_json env_ok
        (handleFileChange select_dog (startup ecma_json \<lparr>getItem_throws = False\<rparr>
           [''bulldogHistory'' \<mapsto> stored_eleven] {})))) = Some 10"
proof -
  let ?env = "\<lparr>getItem_throws = False\<rparr>"
  let ?st = "[''bulldogHistory'' \<mapsto> stored_eleven]"
  let ?v = "JArr [JNum 0, JNum 1, JNum 2, JNum 3, JNum 4, JNum 5, JNum 6, JNum 7, JNum 8, JNum 9, JNum 10]"
  let ?s = "handleFileChange select_dog (startup ecma_json ?env ?st {})"
  have h1: "\<not> getItem_throws ?env" and h2: "?st ''bulldogHistory'' = Some stored_eleven"
    by simp_all
  have h3: "stored_eleven \<noteq> []"
    by (simp add: stored_eleven_def)
  have h4: "JSON_parse ecma_json stored_eleven = Some ?v"
    using parse_eleven by (simp add: ecma_json_def)
  note T = startup_installs_parsed [where storage = "?st" and env = "?env" and P = ecma_json
      and tracks = "{}", OF h1 h2 h3 h4]
  have hs: "history ?s = history (startup ecma_json ?env ?st {})" and f: "file ?s = Some dog_jpg"
    by (simp_all add: handleFileChange_def handleStopCamera_def select_dog_def Let_def split: option.splits)
  have ok: "analysis_succeeds ecma_json env_ok ?s"
    by (rule env_ok_succeeds [OF f]) (simp add: hs T)
  from T hs ok have "array_length (history (handleAnalyze ecma_json env_ok ?s)) = Some 10"
    by (simp add: array_length_def)
  with T h1 h2 h3 h4 ok show ?thesis
    by (simp add: array_length_def)
qed

end
